theory Spec2Isabelle
  imports Main "HOL-Library.AList"
begin

section \<open>The structured record\<close>

text \<open>
  The record that \<^verbatim>\<open>callChatGPTAPI\<close> returns and \<^verbatim>\<open>generateWordDocument\<close>
  reads. Every field is optional: \<open>None\<close> stands for a property that is absent
  (or \<^verbatim>\<open>null\<close>) in the JSON object, \<open>Some\<close> for one that is present with a
  value of the type the prompt's schema gives it.
\<close>

record job_entry =
  title :: "string option"
  dates :: "string option"
  company :: "string option"
  responsibilities :: "string list option"

record education_entry =
  degree :: "string option"
  institution :: "string option"
  year :: "string option"

record skills_obj =
  technical :: "string option"
  core :: "string option"

record personal_obj =
  nationality :: "string option"
  languages :: "string option"
  visaStatus :: "string option"
  other :: "string list option"

record resume_record =
  name :: "string option"
  location :: "string option"
  phone :: "string option"
  email :: "string option"
  summary :: "string list option"
  experience :: "job_entry list option"
  education :: "education_entry list option"
  certifications :: "string list option"
  skills :: "skills_obj option"
  achievements :: "string list option"
  personal :: "personal_obj option"

section \<open>The rendered document\<close>

text \<open>
  The options objects handed to \<^verbatim>\<open>new TextRun\<close> and \<^verbatim>\<open>new Paragraph\<close>. A text run
  has a text, a size and the flags \<^verbatim>\<open>bold\<close> and \<^verbatim>\<open>underline\<close> (false when the
  source leaves them out); a paragraph has an optional alignment, a spacing with an
  optional \<^verbatim>\<open>before\<close> and an \<^verbatim>\<open>after\<close>, an optional numbering and its runs.
\<close>

datatype AlignmentType = LEFT | CENTER | JUSTIFIED

record text_run =
  run_text :: string
  run_size :: nat
  bold :: bool
  underline :: bool

record spacing_obj =
  before :: "nat option"
  after :: nat

record numbering_obj =
  reference :: string
  level :: nat

record block =
  alignment :: "AlignmentType option"
  spacing :: spacing_obj
  numbering :: "numbering_obj option"
  children :: "text_run list"

definition TextRun :: "string \<Rightarrow> nat \<Rightarrow> bool \<Rightarrow> bool \<Rightarrow> text_run" where
  "TextRun t s b u = \<lparr>run_text = t, run_size = s, bold = b, underline = u\<rparr>"

definition Paragraph ::
  "AlignmentType option \<Rightarrow> nat option \<Rightarrow> nat \<Rightarrow> numbering_obj option \<Rightarrow> text_run list \<Rightarrow> block"
where
  "Paragraph al bf af nb rs =
     \<lparr>alignment = al, spacing = \<lparr>before = bf, after = af\<rparr>, numbering = nb, children = rs\<rparr>"

definition bullet_list :: "numbering_obj option" where
  "bullet_list = Some \<lparr>reference = ''bullet-list'', level = 0\<rparr>"

section \<open>JavaScript's errors and operators\<close>

datatype js_error = Error string | SyntaxError | TypeError

definition bind_r :: "js_error + 'a \<Rightarrow> ('a \<Rightarrow> js_error + 'b) \<Rightarrow> js_error + 'b" where
  "bind_r m f = (case m of Inl e \<Rightarrow> Inl e | Inr x \<Rightarrow> f x)"

text \<open>\<^verbatim>\<open>x || d\<close> on an optional string: the default when \<open>x\<close> is absent or empty.\<close>

definition or_default :: "string option \<Rightarrow> string \<Rightarrow> string" where
  "or_default x d = (case x of None \<Rightarrow> d | Some s \<Rightarrow> if s = [] then d else s)"

text \<open>\<^verbatim>\<open>x || []\<close> on an optional array: every array, also the empty one, is truthy.\<close>

definition or_empty :: "'a list option \<Rightarrow> 'a list" where
  "or_empty x = (case x of None \<Rightarrow> [] | Some xs \<Rightarrow> xs)"

text \<open>The truth value of an optional string, as a condition reads it.\<close>

definition truthy :: "string option \<Rightarrow> bool" where
  "truthy x = (case x of None \<Rightarrow> False | Some s \<Rightarrow> s \<noteq> [])"

text \<open>\<^verbatim>\<open>x.length\<close>: a TypeError when \<open>x\<close> is undefined.\<close>

definition length_prop :: "'a list option \<Rightarrow> js_error + int" where
  "length_prop x = (case x of None \<Rightarrow> Inl TypeError | Some xs \<Rightarrow> Inr (int (length xs)))"

text \<open>An optional string inside a template literal.\<close>

definition template_str :: "string option \<Rightarrow> string" where
  "template_str x = (case x of None \<Rightarrow> ''undefined'' | Some s \<Rightarrow> s)"

text \<open>
  \<^verbatim>\<open>xs.map((x, index) => ...)\<close> and \<^verbatim>\<open>xs.flatMap((x, index) => ...)\<close> with a
  callback that may throw: the elements are visited in order, from the index given, and
  the first exception ends the loop.
\<close>

fun map_from :: "nat \<Rightarrow> ('a \<Rightarrow> nat \<Rightarrow> js_error + 'b) \<Rightarrow> 'a list \<Rightarrow> js_error + 'b list" where
  "map_from i f [] = Inr []"
| "map_from i f (x # xs) =
     bind_r (f x i) (\<lambda>y. bind_r (map_from (Suc i) f xs) (\<lambda>ys. Inr (y # ys)))"

fun flatMap_from :: "nat \<Rightarrow> ('a \<Rightarrow> nat \<Rightarrow> js_error + 'b list) \<Rightarrow> 'a list \<Rightarrow> js_error + 'b list" where
  "flatMap_from i f [] = Inr []"
| "flatMap_from i f (x # xs) =
     bind_r (f x i) (\<lambda>ys. bind_r (flatMap_from (Suc i) f xs) (\<lambda>zs. Inr (ys @ zs)))"

definition js_map :: "('a \<Rightarrow> nat \<Rightarrow> js_error + 'b) \<Rightarrow> 'a list \<Rightarrow> js_error + 'b list" where
  "js_map f xs = map_from 0 f xs"

definition js_flatMap :: "('a \<Rightarrow> nat \<Rightarrow> js_error + 'b list) \<Rightarrow> 'a list \<Rightarrow> js_error + 'b list" where
  "js_flatMap f xs = flatMap_from 0 f xs"

section \<open>generateWordDocument: the children of the document's section\<close>

definition header_paragraph :: "string \<Rightarrow> block" where
  "header_paragraph label = Paragraph None (Some 120) 120 None [TextRun label 24 True False]"

definition name_paragraph :: "resume_record \<Rightarrow> block" where
  "name_paragraph d =
     Paragraph (Some CENTER) None 100 None [TextRun (or_default (name d) ''NAME'') 32 True False]"

definition contact_paragraph :: "resume_record \<Rightarrow> block" where
  "contact_paragraph d =
     Paragraph (Some CENTER) None 50 None
       [TextRun (or_default (location d) ''Location'' @ ''|'' @ or_default (phone d) ''Phone'')
          22 False False]"

definition email_paragraph :: "resume_record \<Rightarrow> block" where
  "email_paragraph d =
     Paragraph (Some CENTER) None 200 None
       [TextRun (or_default (email d) ''email@example.com'') 22 False True]"

definition summary_paragraphs :: "resume_record \<Rightarrow> js_error + block list" where
  "summary_paragraphs d =
     js_map (\<lambda>para index.
        bind_r (length_prop (summary d)) (\<lambda>n.
          Inr (Paragraph (Some JUSTIFIED) None (if int index = n - 1 then 240 else 120) None
                 [TextRun para 22 False False])))
       (or_empty (summary d))"

definition responsibility_paragraphs ::
  "resume_record \<Rightarrow> job_entry \<Rightarrow> nat \<Rightarrow> js_error + block list" where
  "responsibility_paragraphs d job jobIndex =
     js_map (\<lambda>resp respIndex.
        bind_r (length_prop (responsibilities job)) (\<lambda>n.
          bind_r (if int respIndex = n - 1
                  then bind_r (length_prop (experience d)) (\<lambda>m. Inr (int jobIndex < m - 1))
                  else Inr False) (\<lambda>wide.
            Inr (Paragraph None None (if wide then 120 else 60) bullet_list
                   [TextRun resp 22 False False]))))
       (or_empty (responsibilities job))"

definition job_paragraphs :: "resume_record \<Rightarrow> js_error + block list" where
  "job_paragraphs d =
     js_flatMap (\<lambda>job jobIndex.
        bind_r (responsibility_paragraphs d job jobIndex) (\<lambda>resps.
          Inr ([Paragraph None None 60 None
                  [TextRun (or_default (title job) ''Job Title'') 22 True False,
                   TextRun (replicate 41 CHR '' '' @ or_default (dates job) ''Dates'')
                     22 False False],
                Paragraph None None 80 None
                  [TextRun (or_default (company job) ''Company Name'') 22 False False]]
               @ resps)))
       (or_empty (experience d))"

definition education_paragraphs :: "resume_record \<Rightarrow> js_error + block list" where
  "education_paragraphs d =
     js_flatMap (\<lambda>edu index.
        bind_r (length_prop (education d)) (\<lambda>n.
          Inr [Paragraph None None 60 None
                 [TextRun (or_default (degree edu) ''Degree'') 22 True False],
               Paragraph None None (if int index = n - 1 then 180 else 120) None
                 [TextRun (or_default (institution edu) ''Institution'' @ '' | ''
                             @ or_default (year edu) ''Year'') 22 False False]]))
       (or_empty (education d))"

text \<open>
  The certifications and the achievements sections have the same shape: the condition
  \<^verbatim>\<open>xs && xs.length > 0\<close>, a header and one bullet for each entry.
\<close>

definition bullet_section :: "string \<Rightarrow> string list option \<Rightarrow> js_error + block list" where
  "bullet_section label xs =
     (if (case xs of None \<Rightarrow> False | Some ys \<Rightarrow> 0 < length ys)
      then bind_r (case xs of None \<Rightarrow> Inl TypeError | Some ys \<Rightarrow> Inr ys) (\<lambda>ys.
             bind_r (js_map (\<lambda>item index.
                        bind_r (length_prop xs) (\<lambda>n.
                          Inr (Paragraph None None (if int index = n - 1 then 180 else 60)
                                 bullet_list [TextRun item 22 False False]))) ys) (\<lambda>bullets.
               Inr (header_paragraph label # bullets)))
      else Inr [])"

definition certification_paragraphs :: "resume_record \<Rightarrow> js_error + block list" where
  "certification_paragraphs d = bullet_section ''CERTIFICATIONS'' (certifications d)"

definition achievement_paragraphs :: "resume_record \<Rightarrow> js_error + block list" where
  "achievement_paragraphs d = bullet_section ''KEY ACHIEVEMENTS'' (achievements d)"

definition skills_paragraphs :: "resume_record \<Rightarrow> block list" where
  "skills_paragraphs d =
     [header_paragraph ''SKILLS'',
      Paragraph (Some JUSTIFIED) None 100 None
        [TextRun ''Technical skills: '' 22 True False,
         TextRun (or_default (case skills d of None \<Rightarrow> None | Some s \<Rightarrow> technical s)
                    ''Skills to be added'') 22 False False],
      Paragraph (Some JUSTIFIED) None 180 None
        [TextRun ''Core competencies: '' 22 True False,
         TextRun (or_default (case skills d of None \<Rightarrow> None | Some s \<Rightarrow> core s)
                    ''Competencies to be added'') 22 False False]]"

definition nationality_paragraph :: "resume_record \<Rightarrow> block" where
  "nationality_paragraph d =
     Paragraph None None 60 bullet_list
       [TextRun (''Nationality: '' @
                 or_default (case personal d of None \<Rightarrow> None | Some p \<Rightarrow> nationality p)
                   ''To be added'') 22 False False]"

text \<open>
  The two optional lines: the condition reads the field through \<^verbatim>\<open>data.personal?.f\<close>,
  the text reads it again through \<^verbatim>\<open>data.personal.f\<close>, which throws when
  \<^verbatim>\<open>data.personal\<close> is undefined.
\<close>

definition optional_line ::
  "string \<Rightarrow> (personal_obj \<Rightarrow> string option) \<Rightarrow> resume_record \<Rightarrow> js_error + block list" where
  "optional_line label f d =
     (if truthy (case personal d of None \<Rightarrow> None | Some p \<Rightarrow> f p)
      then bind_r (case personal d of None \<Rightarrow> Inl TypeError | Some p \<Rightarrow> Inr (f p)) (\<lambda>v.
             Inr [Paragraph None None 60 bullet_list
                    [TextRun (label @ template_str v) 22 False False]])
      else Inr [])"

definition other_paragraphs :: "resume_record \<Rightarrow> js_error + block list" where
  "other_paragraphs d =
     js_map (\<lambda>detail index.
        Inr (Paragraph None None 60 bullet_list [TextRun detail 22 False False]))
       (or_empty (case personal d of None \<Rightarrow> None | Some p \<Rightarrow> other p))"

text \<open>
  The array literal: its elements and spreads are evaluated from top to bottom, and the
  first one that throws ends the call.
\<close>

definition generateWordDocument :: "resume_record \<Rightarrow> js_error + block list" where
  "generateWordDocument d =
     bind_r (summary_paragraphs d) (\<lambda>summaryPs.
     bind_r (job_paragraphs d) (\<lambda>jobPs.
     bind_r (education_paragraphs d) (\<lambda>eduPs.
     bind_r (certification_paragraphs d) (\<lambda>certPs.
     bind_r (achievement_paragraphs d) (\<lambda>achPs.
     bind_r (optional_line ''Languages: '' languages d) (\<lambda>langPs.
     bind_r (optional_line ''Visa Status: '' visaStatus d) (\<lambda>visaPs.
     bind_r (other_paragraphs d) (\<lambda>otherPs.
       Inr ([name_paragraph d, contact_paragraph d, email_paragraph d]
            @ summaryPs
            @ [header_paragraph ''EXPERIENCE'']
            @ jobPs
            @ [header_paragraph ''EDUCATON'']
            @ eduPs
            @ certPs
            @ achPs
            @ skills_paragraphs d
            @ [header_paragraph ''PERSONAL DETAILS'', nationality_paragraph d]
            @ langPs
            @ visaPs
            @ otherPs)))))))))"

section \<open>JSON.parse and the pattern match\<close>

text \<open>
  \<^verbatim>\<open>JSON.parse\<close> belongs to the runtime, not to the repository: the functions
  below take it as the parameter \<open>parse\<close>, with \<open>None\<close> for a thrown SyntaxError.
  \<open>json_parse\<close> is an instance to evaluate them with. It reads the JSON texts whose
  numbers are integers and whose strings have no \<^verbatim>\<open>\u\<close> escape, and returns
  \<open>None\<close> on every other text. An object is the list of its keys in the order of
  their first occurrence, each with the last value given to it.
\<close>

datatype json =
  JNull | JBool bool | JNumber int | JString string
  | JArray "json list" | JObject "(string \<times> json) list"

definition is_ws :: "char \<Rightarrow> bool" where
  "is_ws c = (c = CHR '' '' \<or> c = CHR 0x09 \<or> c = CHR 0x0A \<or> c = CHR 0x0D)"

definition skip_ws :: "string \<Rightarrow> string" where
  "skip_ws s = dropWhile is_ws s"

definition is_digit :: "char \<Rightarrow> bool" where
  "is_digit c = (c \<in> set ''0123456789'')"

definition digit_val :: "char \<Rightarrow> nat" where
  "digit_val c = of_char c - 48"

fun parse_digits :: "nat \<Rightarrow> string \<Rightarrow> nat \<times> string" where
  "parse_digits acc [] = (acc, [])"
| "parse_digits acc (c # cs) =
     (if is_digit c then parse_digits (10 * acc + digit_val c) cs else (acc, c # cs))"

definition parse_unsigned :: "string \<Rightarrow> (nat \<times> string) option" where
  "parse_unsigned s =
     (case s of
        [] \<Rightarrow> None
      | c # cs \<Rightarrow>
          if c = CHR ''0'' then Some (0, cs)
          else if is_digit c then Some (parse_digits 0 s)
          else None)"

definition parse_number :: "string \<Rightarrow> (json \<times> string) option" where
  "parse_number s =
     (let neg = (take 1 s = ''-'');
          r = parse_unsigned (if neg then drop 1 s else s)
      in case r of
           None \<Rightarrow> None
         | Some (n, rest) \<Rightarrow>
             if take 1 rest = ''.'' \<or> take 1 rest = ''e'' \<or> take 1 rest = ''E'' then None
             else Some (JNumber (if neg then - int n else int n), rest))"

definition unescape :: "char \<Rightarrow> char option" where
  "unescape c =
     (if c = CHR 0x22 \<or> c = CHR 0x5C \<or> c = CHR ''/'' then Some c
      else if c = CHR ''b'' then Some (CHR 0x08)
      else if c = CHR ''f'' then Some (CHR 0x0C)
      else if c = CHR ''n'' then Some (CHR 0x0A)
      else if c = CHR ''r'' then Some (CHR 0x0D)
      else if c = CHR ''t'' then Some (CHR 0x09)
      else None)"

text \<open>The characters after an opening quote, up to the closing one.\<close>

fun parse_string_body :: "string \<Rightarrow> string \<Rightarrow> (string \<times> string) option" where
  "parse_string_body acc [] = None"
| "parse_string_body acc (c # cs) =
     (if c = CHR 0x22 then Some (acc, cs)
      else if c = CHR 0x5C then
        (case cs of
           [] \<Rightarrow> None
         | e # rest \<Rightarrow>
             (case unescape e of
                None \<Rightarrow> None
              | Some u \<Rightarrow> parse_string_body (acc @ [u]) rest))
      else if (of_char c :: nat) < 32 then None
      else parse_string_body (acc @ [c]) cs)"

fun parse_value :: "nat \<Rightarrow> string \<Rightarrow> (json \<times> string) option"
  and parse_elements :: "nat \<Rightarrow> json list \<Rightarrow> string \<Rightarrow> (json list \<times> string) option"
  and parse_members ::
    "nat \<Rightarrow> (string \<times> json) list \<Rightarrow> string \<Rightarrow> ((string \<times> json) list \<times> string) option"
where
  "parse_value 0 s = None"
| "parse_value (Suc n) s =
     (case s of
        [] \<Rightarrow> None
      | c # cs \<Rightarrow>
          if c = CHR ''{'' then
            (if take 1 (skip_ws cs) = ''}'' then Some (JObject [], drop 1 (skip_ws cs))
             else (case parse_members n [] (skip_ws cs) of
                     None \<Rightarrow> None
                   | Some (ms, rest) \<Rightarrow> Some (JObject ms, rest)))
          else if c = CHR ''['' then
            (if take 1 (skip_ws cs) = '']'' then Some (JArray [], drop 1 (skip_ws cs))
             else (case parse_elements n [] (skip_ws cs) of
                     None \<Rightarrow> None
                   | Some (vs, rest) \<Rightarrow> Some (JArray vs, rest)))
          else if c = CHR 0x22 then
            (case parse_string_body [] cs of
               None \<Rightarrow> None
             | Some (t, rest) \<Rightarrow> Some (JString t, rest))
          else if take 4 s = ''true'' then Some (JBool True, drop 4 s)
          else if take 5 s = ''false'' then Some (JBool False, drop 5 s)
          else if take 4 s = ''null'' then Some (JNull, drop 4 s)
          else parse_number s)"
| "parse_elements 0 acc s = None"
| "parse_elements (Suc n) acc s =
     (case parse_value n s of
        None \<Rightarrow> None
      | Some (v, rest) \<Rightarrow>
          (case skip_ws rest of
             [] \<Rightarrow> None
           | c # cs \<Rightarrow>
               if c = CHR '','' then parse_elements n (acc @ [v]) (skip_ws cs)
               else if c = CHR '']'' then Some (acc @ [v], cs)
               else None))"
| "parse_members 0 acc s = None"
| "parse_members (Suc n) acc s =
     (case s of
        [] \<Rightarrow> None
      | q # s1 \<Rightarrow>
          if q \<noteq> CHR 0x22 then None
          else
            (case parse_string_body [] s1 of
               None \<Rightarrow> None
             | Some (k, s2) \<Rightarrow>
                 (case skip_ws s2 of
                    [] \<Rightarrow> None
                  | colon # s3 \<Rightarrow>
                      if colon \<noteq> CHR '':'' then None
                      else
                        (case parse_value n (skip_ws s3) of
                           None \<Rightarrow> None
                         | Some (v, s4) \<Rightarrow>
                             (case skip_ws s4 of
                                [] \<Rightarrow> None
                              | c # cs \<Rightarrow>
                                  if c = CHR '','' then
                                    parse_members n (AList.update k v acc) (skip_ws cs)
                                  else if c = CHR ''}'' then Some (AList.update k v acc, cs)
                                  else None)))))"

definition json_parse :: "string \<Rightarrow> json option" where
  "json_parse s =
     (case parse_value (2 * length s + 2) (skip_ws s) of
        None \<Rightarrow> None
      | Some (v, rest) \<Rightarrow> if skip_ws rest = [] then Some v else None)"

text \<open>
  \<^verbatim>\<open>responseText.match(/\{[\s\S]*\}/)\<close>: the match starts at the first opening brace
  and, the star being greedy, ends at the last closing brace after it; there is no
  match when either is missing.
\<close>

definition jsonMatch :: "string \<Rightarrow> string option" where
  "jsonMatch s =
     (case dropWhile (\<lambda>c. c \<noteq> CHR ''{'') s of
        [] \<Rightarrow> None
      | c # rest \<Rightarrow>
          (case dropWhile (\<lambda>c. c \<noteq> CHR ''}'') (rev rest) of
             [] \<Rightarrow> None
           | r # rs \<Rightarrow> Some (c # rev (r # rs))))"

text \<open>
  The span the specification's words describe, for comparison with \<open>jsonMatch\<close>: from
  the first opening brace to the closing brace that balances it.
\<close>

fun balanced_prefix :: "nat \<Rightarrow> string \<Rightarrow> string option" where
  "balanced_prefix depth [] = None"
| "balanced_prefix depth (c # cs) =
     (if c = CHR ''{'' then map_option ((#) c) (balanced_prefix (Suc depth) cs)
      else if c = CHR ''}'' then
        (if depth \<le> 1 then Some [c] else map_option ((#) c) (balanced_prefix (depth - 1) cs))
      else map_option ((#) c) (balanced_prefix depth cs))"

definition spec_first_top_level_span :: "string \<Rightarrow> string option" where
  "spec_first_top_level_span s = balanced_prefix 0 (dropWhile (\<lambda>c. c \<noteq> CHR ''{'') s)"

section \<open>callChatGPTAPI: reading the remote service's answer\<close>

text \<open>
  The request itself is the environment's: the model starts from the response that
  \<^verbatim>\<open>fetch\<close> resolves to. Its body, read by \<^verbatim>\<open>response.json()\<close>, is \<open>None\<close> when it is
  not JSON, and otherwise the object with the properties the code reads.
\<close>

record error_obj =
  message :: "string option"

record message_obj =
  content :: "string option"

record choice_obj =
  choice_message :: "message_obj option"

record body_obj =
  error :: "error_obj option"
  choices :: "choice_obj list option"

record response =
  ok :: bool
  status :: nat
  json :: "body_obj option"

text \<open>A status code inside a template literal: its decimal digits.\<close>

fun string_of_nat :: "nat \<Rightarrow> string" where
  "string_of_nat n =
     (if n < 10 then [''0123456789'' ! n]
      else string_of_nat (n div 10) @ [''0123456789'' ! (n mod 10)])"

text \<open>\<^verbatim>\<open>data.choices[0].message.content\<close>: a TypeError when a link of the chain is missing.\<close>

definition message_content :: "body_obj \<Rightarrow> js_error + string option" where
  "message_content data =
     (case choices data of
        None \<Rightarrow> Inl TypeError
      | Some cs \<Rightarrow>
          (case cs of
             [] \<Rightarrow> Inl TypeError
           | c # _ \<Rightarrow>
               (case choice_message c of
                  None \<Rightarrow> Inl TypeError
                | Some m \<Rightarrow> Inr (content m))))"

text \<open>
  The inner \<^verbatim>\<open>try\<close>/\<^verbatim>\<open>catch\<close>. On an undefined text \<^verbatim>\<open>JSON.parse\<close> throws and
  \<^verbatim>\<open>responseText.match\<close> in the handler throws the TypeError that escapes. The second
  \<^verbatim>\<open>JSON.parse\<close> is inside the handler, so its SyntaxError escapes as it is.
\<close>

definition parse_response_text :: "(string \<Rightarrow> 'j option) \<Rightarrow> string option \<Rightarrow> js_error + 'j" where
  "parse_response_text parse responseText =
     (case responseText of
        None \<Rightarrow> Inl TypeError
      | Some t \<Rightarrow>
          (case parse t of
             Some v \<Rightarrow> Inr v
           | None \<Rightarrow>
               (case jsonMatch t of
                  Some m \<Rightarrow> (case parse m of Some v \<Rightarrow> Inr v | None \<Rightarrow> Inl SyntaxError)
                | None \<Rightarrow> Inl (Error ''Failed to parse ChatGPT response as JSON''))))"

definition callChatGPTAPI :: "(string \<Rightarrow> 'j option) \<Rightarrow> response \<Rightarrow> js_error + 'j" where
  "callChatGPTAPI parse resp =
     (if \<not> ok resp then
        (case json resp of
           None \<Rightarrow> Inl SyntaxError
         | Some errorData \<Rightarrow>
             Inl (Error (''ChatGPT API error: '' @
                    or_default (case error errorData of None \<Rightarrow> None | Some e \<Rightarrow> message e)
                      (''HTTP '' @ string_of_nat (status resp)))))
      else
        (case json resp of
           None \<Rightarrow> Inl SyntaxError
         | Some data \<Rightarrow> bind_r (message_content data) (parse_response_text parse)))"

section \<open>The document in closed form\<close>

text \<open>
  None of the callbacks of \<open>generateWordDocument\<close> throws on a record of the schema:
  wherever a callback reads \<^verbatim>\<open>xs.length\<close>, the array \<open>xs\<close> is the one being
  mapped over, so it is there. The definitions below give the paragraphs without the
  error plumbing; \<open>generateWordDocument_eq\<close> proves them equal to the translation of
  the source.
\<close>

definition summary_block :: "nat \<Rightarrow> string \<Rightarrow> nat \<Rightarrow> block" where
  "summary_block n para index =
     Paragraph (Some JUSTIFIED) None (if Suc index = n then 240 else 120) None
       [TextRun para 22 False False]"

definition summary_blocks :: "resume_record \<Rightarrow> block list" where
  "summary_blocks d =
     map (\<lambda>(i, para). summary_block (length (or_empty (summary d))) para i)
       (enumerate 0 (or_empty (summary d)))"

definition responsibility_block :: "nat \<Rightarrow> nat \<Rightarrow> nat \<Rightarrow> string \<Rightarrow> nat \<Rightarrow> block" where
  "responsibility_block m jobIndex n resp respIndex =
     Paragraph None None (if Suc respIndex = n \<and> Suc jobIndex < m then 120 else 60) bullet_list
       [TextRun resp 22 False False]"

definition job_blocks :: "nat \<Rightarrow> job_entry \<Rightarrow> nat \<Rightarrow> block list" where
  "job_blocks m job jobIndex =
     [Paragraph None None 60 None
        [TextRun (or_default (title job) ''Job Title'') 22 True False,
         TextRun (replicate 41 CHR '' '' @ or_default (dates job) ''Dates'') 22 False False],
      Paragraph None None 80 None
        [TextRun (or_default (company job) ''Company Name'') 22 False False]]
     @ map (\<lambda>(i, resp).
              responsibility_block m jobIndex (length (or_empty (responsibilities job))) resp i)
         (enumerate 0 (or_empty (responsibilities job)))"

definition experience_blocks :: "resume_record \<Rightarrow> block list" where
  "experience_blocks d =
     concat (map (\<lambda>(j, job). job_blocks (length (or_empty (experience d))) job j)
               (enumerate 0 (or_empty (experience d))))"

definition education_entry_blocks :: "nat \<Rightarrow> education_entry \<Rightarrow> nat \<Rightarrow> block list" where
  "education_entry_blocks n edu index =
     [Paragraph None None 60 None
        [TextRun (or_default (degree edu) ''Degree'') 22 True False],
      Paragraph None None (if Suc index = n then 180 else 120) None
        [TextRun (or_default (institution edu) ''Institution'' @ '' | ''
                    @ or_default (year edu) ''Year'') 22 False False]]"

definition education_blocks :: "resume_record \<Rightarrow> block list" where
  "education_blocks d =
     concat (map (\<lambda>(i, edu). education_entry_blocks (length (or_empty (education d))) edu i)
               (enumerate 0 (or_empty (education d))))"

definition bullet_block :: "nat \<Rightarrow> string \<Rightarrow> nat \<Rightarrow> block" where
  "bullet_block n item index =
     Paragraph None None (if Suc index = n then 180 else 60) bullet_list
       [TextRun item 22 False False]"

definition bullet_blocks :: "string \<Rightarrow> string list \<Rightarrow> block list" where
  "bullet_blocks label xs =
     (if xs = [] then []
      else header_paragraph label # map (\<lambda>(i, x). bullet_block (length xs) x i) (enumerate 0 xs))"

definition optional_blocks :: "string \<Rightarrow> string option \<Rightarrow> block list" where
  "optional_blocks label v =
     (if truthy v
      then [Paragraph None None 60 bullet_list [TextRun (label @ template_str v) 22 False False]]
      else [])"

definition personal_field :: "(personal_obj \<Rightarrow> 'a option) \<Rightarrow> resume_record \<Rightarrow> 'a option" where
  "personal_field f d = (case personal d of None \<Rightarrow> None | Some p \<Rightarrow> f p)"

definition other_blocks :: "resume_record \<Rightarrow> block list" where
  "other_blocks d =
     map (\<lambda>detail. Paragraph None None 60 bullet_list [TextRun detail 22 False False])
       (or_empty (personal_field other d))"

definition render_blocks :: "resume_record \<Rightarrow> block list" where
  "render_blocks d =
     [name_paragraph d, contact_paragraph d, email_paragraph d]
     @ summary_blocks d
     @ [header_paragraph ''EXPERIENCE'']
     @ experience_blocks d
     @ [header_paragraph ''EDUCATON'']
     @ education_blocks d
     @ bullet_blocks ''CERTIFICATIONS'' (or_empty (certifications d))
     @ bullet_blocks ''KEY ACHIEVEMENTS'' (or_empty (achievements d))
     @ skills_paragraphs d
     @ [header_paragraph ''PERSONAL DETAILS'', nationality_paragraph d]
     @ optional_blocks ''Languages: '' (personal_field languages d)
     @ optional_blocks ''Visa Status: '' (personal_field visaStatus d)
     @ other_blocks d"

text \<open>
  The spacings after the blocks of a document, in the order of the blocks, from the
  numbers of summary paragraphs, of responsibilities of each job, of education entries,
  of certifications, of achievements and of other personal details, and from whether
  the languages and the visa status are given. The texts of the record play no part.
\<close>

definition job_spacings :: "nat \<Rightarrow> nat \<Rightarrow> nat \<Rightarrow> nat list" where
  "job_spacings m j n =
     [60, 80] @ map (\<lambda>i. if Suc i = n \<and> Suc j < m then 120 else 60) [0..<n]"

definition bullet_spacings :: "nat \<Rightarrow> nat list" where
  "bullet_spacings n =
     (if n = 0 then [] else 120 # map (\<lambda>i. if Suc i = n then 180 else 60) [0..<n])"

definition trailing_spacings ::
  "nat \<Rightarrow> nat list \<Rightarrow> nat \<Rightarrow> nat \<Rightarrow> nat \<Rightarrow> bool \<Rightarrow> bool \<Rightarrow> nat \<Rightarrow> nat list" where
  "trailing_spacings n_summary n_resps n_education n_certs n_achievements has_languages has_visa
     n_other =
     [100, 50, 200]
     @ map (\<lambda>i. if Suc i = n_summary then 240 else 120) [0..<n_summary]
     @ [120]
     @ concat (map (\<lambda>(j, n). job_spacings (length n_resps) j n) (enumerate 0 n_resps))
     @ [120]
     @ concat (map (\<lambda>i. [60, if Suc i = n_education then 180 else 120]) [0..<n_education])
     @ bullet_spacings n_certs
     @ bullet_spacings n_achievements
     @ [120, 100, 180, 120, 60]
     @ (if has_languages then [60] else [])
     @ (if has_visa then [60] else [])
     @ replicate n_other 60"

section \<open>Example inputs\<close>

text \<open>The record with every field absent.\<close>

definition absent_record :: resume_record where
  "absent_record =
     \<lparr>name = None, location = None, phone = None, email = None, summary = None,
      experience = None, education = None, certifications = None, skills = None,
      achievements = None, personal = None\<rparr>"


text \<open>A record with a summary of two paragraphs and two jobs of two responsibilities each.\<close>

definition two_jobs :: resume_record where
  "two_jobs =
     \<lparr>name = Some ''A B'', location = None, phone = None, email = None,
      summary = Some [''p1'', ''p2''],
      experience = Some
        [\<lparr>title = Some ''T1'', dates = None, company = None,
          responsibilities = Some [''r1'', ''r2'']\<rparr>,
         \<lparr>title = Some ''T2'', dates = None, company = None,
          responsibilities = Some [''r3'', ''r4'']\<rparr>],
      education = None, certifications = None, skills = None,
      achievements = None, personal = None\<rparr>"

text \<open>The record with three certifications and every other field absent.\<close>

definition three_certifications :: resume_record where
  "three_certifications = absent_record\<lparr>certifications := Some [''c1'', ''c2'', ''c3'']\<rparr>"

text \<open>A successful answer of the remote service whose message content is \<open>t\<close>.\<close>

definition chat_response :: "string \<Rightarrow> response" where
  "chat_response t =
     \<lparr>ok = True, status = 200,
      json = Some \<lparr>error = None,
                   choices = Some [\<lparr>choice_message = Some \<lparr>content = Some t\<rparr>\<rparr>]\<rparr>\<rparr>"

text \<open>
  A failed answer with the given status code, whose body holds an error object with the
  given message, if any.
\<close>

definition error_response :: "nat \<Rightarrow> string option \<Rightarrow> response" where
  "error_response code msg =
     \<lparr>ok = False, status = code,
      json = Some \<lparr>error = Some \<lparr>message = msg\<rparr>, choices = None\<rparr>\<rparr>"

section \<open>The translation never throws\<close>

declare string_of_nat.simps [simp del]

lemma bind_r_Inr [simp]: "bind_r (Inr x) f = f x"
  by (simp add: bind_r_def)

lemma bind_r_Inl [simp]: "bind_r (Inl e) f = Inl e"
  by (simp add: bind_r_def)

lemma map_from_Inr:
  assumes "\<And>x i. f x i = Inr (g x i)"
  shows "map_from k f xs = Inr (map (\<lambda>(i, x). g x i) (enumerate k xs))"
  by (induction xs arbitrary: k) (simp_all add: assms)

lemma flatMap_from_Inr:
  assumes "\<And>x i. f x i = Inr (g x i)"
  shows "flatMap_from k f xs = Inr (concat (map (\<lambda>(i, x). g x i) (enumerate k xs)))"
  by (induction xs arbitrary: k) (simp_all add: assms)

lemma map_enumerate_snd: "map (\<lambda>(i, x). h x) (enumerate k xs) = map h xs"
  by (induction xs arbitrary: k) simp_all

lemma summary_paragraphs_eq: "summary_paragraphs d = Inr (summary_blocks d)"
proof (cases "summary d")
  case None
  then show ?thesis
    by (simp add: summary_paragraphs_def summary_blocks_def js_map_def or_empty_def)
next
  case (Some ps)
  have "\<And>para index.
      bind_r (length_prop (summary d)) (\<lambda>n.
         Inr (Paragraph (Some JUSTIFIED) None (if int index = n - 1 then 240 else 120) None
                [TextRun para 22 False False]))
      = Inr (summary_block (length ps) para index)"
    using Some by (auto simp add: length_prop_def summary_block_def)
  then show ?thesis
    using Some
    by (simp add: summary_paragraphs_def summary_blocks_def js_map_def or_empty_def
        map_from_Inr)
qed

lemma responsibility_paragraphs_eq:
  assumes "experience d = Some js"
  shows "responsibility_paragraphs d job jobIndex =
     Inr (map (\<lambda>(i, resp).
              responsibility_block (length js) jobIndex
                (length (or_empty (responsibilities job))) resp i)
         (enumerate 0 (or_empty (responsibilities job))))"
proof (cases "responsibilities job")
  case None
  then show ?thesis
    by (simp add: responsibility_paragraphs_def js_map_def or_empty_def)
next
  case (Some rs)
  have "\<And>resp respIndex.
      bind_r (length_prop (responsibilities job)) (\<lambda>n.
          bind_r (if int respIndex = n - 1
                  then bind_r (length_prop (experience d)) (\<lambda>m. Inr (int jobIndex < m - 1))
                  else Inr False) (\<lambda>wide.
            Inr (Paragraph None None (if wide then 120 else 60) bullet_list
                   [TextRun resp 22 False False])))
      = Inr (responsibility_block (length js) jobIndex (length rs) resp respIndex)"
    using Some assms by (auto simp add: length_prop_def responsibility_block_def)
  then show ?thesis
    using Some
    by (simp add: responsibility_paragraphs_def js_map_def or_empty_def map_from_Inr)
qed

lemma job_paragraphs_eq: "job_paragraphs d = Inr (experience_blocks d)"
proof (cases "experience d")
  case None
  then show ?thesis
    by (simp add: job_paragraphs_def experience_blocks_def js_flatMap_def or_empty_def)
next
  case (Some js)
  show ?thesis
    using Some
    by (simp add: job_paragraphs_def experience_blocks_def js_flatMap_def or_empty_def
        responsibility_paragraphs_eq [OF Some] job_blocks_def flatMap_from_Inr)
qed

lemma education_paragraphs_eq: "education_paragraphs d = Inr (education_blocks d)"
proof (cases "education d")
  case None
  then show ?thesis
    by (simp add: education_paragraphs_def education_blocks_def js_flatMap_def or_empty_def)
next
  case (Some es)
  have "\<And>edu index.
      bind_r (length_prop (education d)) (\<lambda>n.
          Inr [Paragraph None None 60 None
                 [TextRun (or_default (degree edu) ''Degree'') 22 True False],
               Paragraph None None (if int index = n - 1 then 180 else 120) None
                 [TextRun (or_default (institution edu) ''Institution'' @ '' | ''
                             @ or_default (year edu) ''Year'') 22 False False]])
      = Inr (education_entry_blocks (length es) edu index)"
    using Some by (auto simp add: length_prop_def education_entry_blocks_def)
  then show ?thesis
    using Some
    by (simp add: education_paragraphs_def education_blocks_def js_flatMap_def or_empty_def
        flatMap_from_Inr)
qed

lemma bullet_section_eq: "bullet_section label xs = Inr (bullet_blocks label (or_empty xs))"
proof (cases xs)
  case None
  then show ?thesis
    by (simp add: bullet_section_def bullet_blocks_def or_empty_def)
next
  case (Some ys)
  have "\<And>item index.
      bind_r (length_prop xs) (\<lambda>n.
         Inr (Paragraph None None (if int index = n - 1 then 180 else 60)
                bullet_list [TextRun item 22 False False]))
      = Inr (bullet_block (length ys) item index)"
    using Some by (auto simp add: length_prop_def bullet_block_def)
  then show ?thesis
    using Some
    by (simp add: bullet_section_def bullet_blocks_def or_empty_def js_map_def map_from_Inr)
qed

lemma optional_line_eq: "optional_line label f d = Inr (optional_blocks label (personal_field f d))"
  by (cases "personal d")
    (simp_all add: optional_line_def optional_blocks_def personal_field_def truthy_def)

lemma other_paragraphs_eq: "other_paragraphs d = Inr (other_blocks d)"
  by (simp add: other_paragraphs_def other_blocks_def js_map_def personal_field_def
      map_from_Inr map_enumerate_snd)

lemma generateWordDocument_eq: "generateWordDocument d = Inr (render_blocks d)"
  by (simp add: generateWordDocument_def render_blocks_def summary_paragraphs_eq
      job_paragraphs_eq education_paragraphs_eq certification_paragraphs_def
      achievement_paragraphs_def bullet_section_eq optional_line_eq other_paragraphs_eq)

lemmas section_defs =
  render_blocks_def summary_blocks_def experience_blocks_def education_blocks_def
  bullet_blocks_def optional_blocks_def other_blocks_def personal_field_def
  or_empty_def skills_paragraphs_def nationality_paragraph_def name_paragraph_def
  contact_paragraph_def email_paragraph_def truthy_def

section \<open>Positions in the document\<close>

lemma nth_concat_enumerate:
  assumes len: "\<And>i x. length (g i x) = h x"
  shows "j < length xs \<Longrightarrow> m < h (xs ! j) \<Longrightarrow>
         concat (map (\<lambda>(i, x). g i x) (enumerate k xs)) ! (sum_list (map h (take j xs)) + m)
           = g (k + j) (xs ! j) ! m"
proof (induction xs arbitrary: k j)
  case Nil
  then show ?case by simp
next
  case (Cons x xs)
  show ?case
  proof (cases j)
    case 0
    with Cons.prems show ?thesis by (simp add: nth_append len)
  next
    case (Suc j')
    with Cons.prems have "j' < length xs" and "m < h (xs ! j')" by simp_all
    from Cons.IH [OF this, of "Suc k"] Suc show ?thesis
      by (simp add: nth_append len add.assoc)
  qed
qed

lemma sum_take_less:
  fixes h :: "'a \<Rightarrow> nat"
  shows "j < length xs \<Longrightarrow> m < h (xs ! j) \<Longrightarrow> sum_list (map h (take j xs)) + m < sum_list (map h xs)"
proof (induction xs arbitrary: j)
  case Nil
  then show ?case by simp
next
  case (Cons x xs)
  then show ?case by (cases j) (simp_all add: add.assoc)
qed

lemma length_summary_blocks: "length (summary_blocks d) = length (or_empty (summary d))"
  by (simp add: summary_blocks_def)

lemma nth_summary_blocks:
  "i < length (or_empty (summary d)) \<Longrightarrow>
   summary_blocks d ! i =
     summary_block (length (or_empty (summary d))) (or_empty (summary d) ! i) i"
  by (simp add: summary_blocks_def nth_enumerate_eq)

lemma length_job_blocks: "length (job_blocks m job j) = 2 + length (or_empty (responsibilities job))"
  by (simp add: job_blocks_def)

lemma nth_job_blocks:
  "i < length (or_empty (responsibilities job)) \<Longrightarrow>
   job_blocks m job j ! (2 + i) =
     responsibility_block m j (length (or_empty (responsibilities job)))
       (or_empty (responsibilities job) ! i) i"
  by (simp add: job_blocks_def nth_enumerate_eq)

lemma nth_experience_blocks:
  assumes "j < length (or_empty (experience d))"
    and "i < length (or_empty (responsibilities (or_empty (experience d) ! j)))"
  shows "experience_blocks d !
           ((\<Sum>job\<leftarrow>take j (or_empty (experience d)).
               2 + length (or_empty (responsibilities job))) + (2 + i))
         = responsibility_block (length (or_empty (experience d))) j
             (length (or_empty (responsibilities (or_empty (experience d) ! j))))
             (or_empty (responsibilities (or_empty (experience d) ! j)) ! i) i"
proof -
  let ?js = "or_empty (experience d)"
  let ?h = "\<lambda>job. 2 + length (or_empty (responsibilities job))"
  have "concat (map (\<lambda>(k, job). job_blocks (length ?js) job k) (enumerate 0 ?js))
          ! (sum_list (map ?h (take j ?js)) + (2 + i))
        = job_blocks (length ?js) (?js ! j) (0 + j) ! (2 + i)"
    using assms by (intro nth_concat_enumerate) (simp_all add: length_job_blocks)
  with nth_job_blocks [OF assms(2), of "length ?js" j] show ?thesis
    by (simp add: experience_blocks_def)
qed

lemma length_experience_blocks:
  "length (experience_blocks d) =
     (\<Sum>job\<leftarrow>or_empty (experience d). 2 + length (or_empty (responsibilities job)))"
proof -
  have "\<And>k m xs. length (concat (map (\<lambda>(j, job). job_blocks m job j) (enumerate k xs)))
        = (\<Sum>job\<leftarrow>xs. 2 + length (or_empty (responsibilities job)))"
  proof -
    fix k m and xs :: "job_entry list"
    show "length (concat (map (\<lambda>(j, job). job_blocks m job j) (enumerate k xs)))
        = (\<Sum>job\<leftarrow>xs. 2 + length (or_empty (responsibilities job)))"
      by (induction xs arbitrary: k) (simp_all add: length_job_blocks)
  qed
  then show ?thesis by (simp add: experience_blocks_def)
qed

lemma length_education_blocks:
  "length (education_blocks d) = 2 * length (or_empty (education d))"
proof -
  have "length (concat (map (\<lambda>(i, edu). education_entry_blocks n edu i) (enumerate k xs)))
        = 2 * length xs" for n k and xs :: "education_entry list"
    by (induction xs arbitrary: k) (simp_all add: education_entry_blocks_def)
  then show ?thesis by (simp add: education_blocks_def)
qed

lemma drop_front_render_blocks:
  "drop (5 + length (or_empty (summary d))
           + (\<Sum>job\<leftarrow>or_empty (experience d). 2 + length (or_empty (responsibilities job)))
           + 2 * length (or_empty (education d)))
     (render_blocks d)
   = bullet_blocks ''CERTIFICATIONS'' (or_empty (certifications d))
     @ bullet_blocks ''KEY ACHIEVEMENTS'' (or_empty (achievements d))
     @ skills_paragraphs d
     @ [header_paragraph ''PERSONAL DETAILS'', nationality_paragraph d]
     @ optional_blocks ''Languages: '' (personal_field languages d)
     @ optional_blocks ''Visa Status: '' (personal_field visaStatus d)
     @ other_blocks d"
proof -
  let ?start = "[name_paragraph d, contact_paragraph d, email_paragraph d]
     @ summary_blocks d @ [header_paragraph ''EXPERIENCE''] @ experience_blocks d
     @ [header_paragraph ''EDUCATON''] @ education_blocks d"
  let ?rest = "bullet_blocks ''CERTIFICATIONS'' (or_empty (certifications d))
     @ bullet_blocks ''KEY ACHIEVEMENTS'' (or_empty (achievements d))
     @ skills_paragraphs d
     @ [header_paragraph ''PERSONAL DETAILS'', nationality_paragraph d]
     @ optional_blocks ''Languages: '' (personal_field languages d)
     @ optional_blocks ''Visa Status: '' (personal_field visaStatus d)
     @ other_blocks d"
  have split: "render_blocks d = ?start @ ?rest"
    by (simp add: render_blocks_def)
  have len: "length ?start = 5 + length (or_empty (summary d))
           + (\<Sum>job\<leftarrow>or_empty (experience d). 2 + length (or_empty (responsibilities job)))
           + 2 * length (or_empty (education d))"
    by (simp add: length_summary_blocks length_experience_blocks length_education_blocks)
  show ?thesis
    unfolding split len [symmetric] by simp
qed

lemma map_enumerate_fst: "map (\<lambda>(i, x). f i) (enumerate k xs) = map f [k..<k + length xs]"
proof -
  have "map (\<lambda>(i, x). f i) ys = map f (map fst ys)" for ys :: "(nat \<times> 'b) list"
    by (induction ys) auto
  then show ?thesis by (simp only: map_fst_enumerate)
qed

section \<open>The spacing after each block\<close>

lemma after_Paragraph: "after (spacing (Paragraph al bf af nb rs)) = af"
  by (simp add: Paragraph_def)

lemma spacings_summary_blocks:
  "map (after \<circ> spacing) (summary_blocks d)
     = map (\<lambda>i. if Suc i = length (or_empty (summary d)) then 240 else 120)
         [0..<length (or_empty (summary d))]"
proof -
  have "(after \<circ> spacing) \<circ> (\<lambda>(i, para). summary_block n para i)
        = (\<lambda>(i, para). if Suc i = n then 240 else 120)" for n :: nat
    by (auto simp add: fun_eq_iff summary_block_def after_Paragraph)
  then show ?thesis
    by (simp add: summary_blocks_def map_enumerate_fst)
qed

lemma spacings_job_blocks:
  "map (after \<circ> spacing) (job_blocks m job j)
     = job_spacings m j (length (or_empty (responsibilities job)))"
proof -
  have "(after \<circ> spacing) \<circ> (\<lambda>(i, resp). responsibility_block m j n resp i)
        = (\<lambda>(i, resp). if Suc i = n \<and> Suc j < m then 120 else 60)" for n :: nat
    by (auto simp add: fun_eq_iff responsibility_block_def after_Paragraph)
  then show ?thesis
    by (simp add: job_blocks_def job_spacings_def after_Paragraph map_enumerate_fst)
qed

lemma spacings_jobs_from:
  "map (after \<circ> spacing) (concat (map (\<lambda>(j, job). job_blocks m job j) (enumerate k js)))
     = concat (map (\<lambda>(j, n). job_spacings m j n)
                 (enumerate k (map (\<lambda>job. length (or_empty (responsibilities job))) js)))"
  by (induction js arbitrary: k) (simp_all add: spacings_job_blocks)

lemma spacings_experience_blocks:
  "map (after \<circ> spacing) (experience_blocks d)
     = concat (map (\<lambda>(j, n).
                      job_spacings
                        (length (map (\<lambda>job. length (or_empty (responsibilities job)))
                                   (or_empty (experience d)))) j n)
                 (enumerate 0 (map (\<lambda>job. length (or_empty (responsibilities job)))
                                 (or_empty (experience d)))))"
  by (simp add: experience_blocks_def spacings_jobs_from)

lemma spacings_education_blocks:
  "map (after \<circ> spacing) (education_blocks d)
     = concat (map (\<lambda>i. [60, if Suc i = length (or_empty (education d)) then 180 else 120])
                 [0..<length (or_empty (education d))])"
proof -
  have "map (after \<circ> spacing) \<circ> (\<lambda>(i, edu). education_entry_blocks n edu i)
        = (\<lambda>(i, edu). [60, if Suc i = n then 180 else 120])" for n :: nat
    by (auto simp add: fun_eq_iff education_entry_blocks_def after_Paragraph)
  then show ?thesis
    by (simp add: education_blocks_def map_concat map_enumerate_fst)
qed

lemma spacings_bullet_blocks:
  "map (after \<circ> spacing) (bullet_blocks label xs) = bullet_spacings (length xs)"
proof -
  have "(after \<circ> spacing) \<circ> (\<lambda>(i, x). bullet_block n x i)
        = (\<lambda>(i, x). if Suc i = n then 180 else 60)" for n :: nat
    by (auto simp add: fun_eq_iff bullet_block_def after_Paragraph)
  then show ?thesis
    by (simp add: bullet_blocks_def bullet_spacings_def header_paragraph_def after_Paragraph
        map_enumerate_fst)
qed

lemma spacings_optional_blocks:
  "map (after \<circ> spacing) (optional_blocks label v) = (if truthy v then [60] else [])"
  by (simp add: optional_blocks_def after_Paragraph)

lemma spacings_other_blocks:
  "map (after \<circ> spacing) (other_blocks d)
     = replicate (length (or_empty (personal_field other d))) 60"
  by (simp add: other_blocks_def after_Paragraph comp_def map_replicate_const)

lemma spacings_render_blocks:
  "map (after \<circ> spacing) (render_blocks d)
     = trailing_spacings
         (length (or_empty (summary d)))
         (map (\<lambda>job. length (or_empty (responsibilities job))) (or_empty (experience d)))
         (length (or_empty (education d)))
         (length (or_empty (certifications d)))
         (length (or_empty (achievements d)))
         (truthy (personal_field languages d))
         (truthy (personal_field visaStatus d))
         (length (or_empty (personal_field other d)))"
  unfolding render_blocks_def trailing_spacings_def map_append
    spacings_summary_blocks spacings_experience_blocks spacings_education_blocks
    spacings_bullet_blocks spacings_optional_blocks spacings_other_blocks
  by (simp add: name_paragraph_def contact_paragraph_def email_paragraph_def
      header_paragraph_def skills_paragraphs_def nationality_paragraph_def after_Paragraph)

lemma trailing_spacings_range:
  "set (trailing_spacings a bs c e f g h k) \<subseteq> {50, 60, 80, 100, 120, 180, 200, 240}"
  by (auto simp add: trailing_spacings_def job_spacings_def bullet_spacings_def
      split: if_splits)

section \<open>The pattern match and the answer's text\<close>

lemma jsonMatch_span:
  assumes "CHR ''{'' \<notin> set pre" and "CHR ''}'' \<notin> set post"
  shows "jsonMatch (pre @ CHR ''{'' # mid @ CHR ''}'' # post) = Some (CHR ''{'' # mid @ [CHR ''}''])"
proof -
  have "dropWhile (\<lambda>c. c \<noteq> CHR ''{'') (pre @ CHR ''{'' # mid @ CHR ''}'' # post)
        = CHR ''{'' # mid @ CHR ''}'' # post"
    using assms(1) by (auto simp add: dropWhile_append3)
  moreover have "dropWhile (\<lambda>c. c \<noteq> CHR ''}'') (rev (mid @ CHR ''}'' # post))
        = CHR ''}'' # rev mid"
    using assms(2) by (auto simp add: dropWhile_append3)
  ultimately show ?thesis
    by (simp add: jsonMatch_def)
qed

lemma jsonMatch_none:
  assumes "CHR ''{'' \<notin> set t \<or> CHR ''}'' \<notin> set (dropWhile (\<lambda>c. c \<noteq> CHR ''{'') t)"
  shows "jsonMatch t = None"
proof (cases "dropWhile (\<lambda>c. c \<noteq> CHR ''{'') t")
  case Nil
  show ?thesis unfolding jsonMatch_def Nil by simp
next
  case (Cons c rest)
  then have "dropWhile (\<lambda>c. c \<noteq> CHR ''{'') t \<noteq> []"
    by simp
  then have "CHR ''{'' \<in> set t"
    by (simp add: dropWhile_eq_Nil_conv)
  with assms Cons have "CHR ''}'' \<notin> set rest" by simp
  then have dw: "dropWhile (\<lambda>c. c \<noteq> CHR ''}'') (rev rest) = []"
    by auto
  show ?thesis by (simp add: jsonMatch_def Cons dw)
qed

lemma callChatGPTAPI_ok:
  assumes "ok r" and "json r = Some data" and "message_content data = Inr (Some t)"
  shows "callChatGPTAPI parse r = parse_response_text parse (Some t)"
  using assms by (simp add: callChatGPTAPI_def)

section \<open>The claims\<close>

subsection \<open>Spacing of the responsibilities (C1)\<close>

text \<open>
  Claim C1. Let the record have the experience list \<open>js\<close>, let \<open>j\<close> be the index of
  a job in it and \<open>rs\<close> that job's responsibilities. The document is produced, and
  the bulleted block of the \<open>i\<close>-th responsibility stands after the three heading
  blocks, the summary, the EXPERIENCE header, the blocks of the jobs before \<open>j\<close> (two
  lines and one bullet for each responsibility) and the job's own two lines. Its
  spacing after is 120 when it is the last responsibility of a job that another job
  follows, and 60 in every other case: for every responsibility that is not the last
  of its job, and for the last responsibility of the last job.
\<close>

theorem experience_spacing:
  assumes "experience d = Some js" and "j < length js"
    and "responsibilities (js ! j) = Some rs" and "i < length rs"
  shows "\<exists>bs. generateWordDocument d = Inr bs
           \<and> bs ! (4 + length (or_empty (summary d))
                    + (\<Sum>job\<leftarrow>take j js. 2 + length (or_empty (responsibilities job)))
                    + 2 + i)
               = Paragraph None None (if Suc i = length rs \<and> Suc j < length js then 120 else 60)
                   bullet_list [TextRun (rs ! i) 22 False False]"
proof -
  have js: "or_empty (experience d) = js"
    using assms(1) by (simp add: or_empty_def)
  have rs: "or_empty (responsibilities (js ! j)) = rs"
    using assms(3) by (simp add: or_empty_def)
  let ?off = "(\<Sum>job\<leftarrow>take j js. 2 + length (or_empty (responsibilities job))) + (2 + i)"
  have inner: "experience_blocks d ! ?off = responsibility_block (length js) j (length rs) (rs ! i) i"
    using nth_experience_blocks [of j d i] assms(2,4) by (simp add: js rs)
  have bound: "?off < length (experience_blocks d)"
    using sum_take_less [of j js "2 + i" "\<lambda>job. 2 + length (or_empty (responsibilities job))"]
      assms(2,4)
    by (simp add: length_experience_blocks js rs)
  have "render_blocks d ! (4 + length (or_empty (summary d)) + ?off) = experience_blocks d ! ?off"
    using bound by (simp add: render_blocks_def nth_append length_summary_blocks)
  with inner show ?thesis
    by (simp add: generateWordDocument_eq responsibility_block_def add.assoc)
qed

text \<open>
  The theorem at the record \<open>two_jobs\<close>: the bullets of the first job get 60 and 120,
  those of the second and last job get 60 and 60.
\<close>

theorem experience_spacing_witness:
  "experience two_jobs = Some
        [\<lparr>title = Some ''T1'', dates = None, company = None,
          responsibilities = Some [''r1'', ''r2'']\<rparr>,
         \<lparr>title = Some ''T2'', dates = None, company = None,
          responsibilities = Some [''r3'', ''r4'']\<rparr>]
   \<and> (\<exists>bs. generateWordDocument two_jobs = Inr bs
         \<and> bs ! 8 = Paragraph None None 60 bullet_list [TextRun ''r1'' 22 False False]
         \<and> bs ! 9 = Paragraph None None 120 bullet_list [TextRun ''r2'' 22 False False]
         \<and> bs ! 12 = Paragraph None None 60 bullet_list [TextRun ''r3'' 22 False False]
         \<and> bs ! 13 = Paragraph None None 60 bullet_list [TextRun ''r4'' 22 False False])"
proof -
  let ?j1 = "\<lparr>title = Some ''T1'', dates = None, company = None,
          responsibilities = Some [''r1'', ''r2'']\<rparr>"
  let ?j2 = "\<lparr>title = Some ''T2'', dates = None, company = None,
          responsibilities = Some [''r3'', ''r4'']\<rparr>"
  have e: "experience two_jobs = Some [?j1, ?j2]"
    by (simp add: two_jobs_def)
  have a: "\<exists>bs. generateWordDocument two_jobs = Inr bs
         \<and> bs ! 8 = Paragraph None None 60 bullet_list [TextRun ''r1'' 22 False False]"
    using experience_spacing [OF e, of 0 "[''r1'', ''r2'']" 0] by (simp add: or_empty_def two_jobs_def)
  have b: "\<exists>bs. generateWordDocument two_jobs = Inr bs
         \<and> bs ! 9 = Paragraph None None 120 bullet_list [TextRun ''r2'' 22 False False]"
    using experience_spacing [OF e, of 0 "[''r1'', ''r2'']" 1] by (simp add: or_empty_def two_jobs_def)
  have c: "\<exists>bs. generateWordDocument two_jobs = Inr bs
         \<and> bs ! 12 = Paragraph None None 60 bullet_list [TextRun ''r3'' 22 False False]"
    using experience_spacing [OF e, of 1 "[''r3'', ''r4'']" 0] by (simp add: or_empty_def two_jobs_def)
  have d: "\<exists>bs. generateWordDocument two_jobs = Inr bs
         \<and> bs ! 13 = Paragraph None None 60 bullet_list [TextRun ''r4'' 22 False False]"
    using experience_spacing [OF e, of 1 "[''r3'', ''r4'']" 1] by (simp add: or_empty_def two_jobs_def)
  from e a b c d show ?thesis by auto
qed

subsection \<open>Spacing of the summary (C2)\<close>

text \<open>
  Claim C2. For a record whose summary has the \<open>N\<close> paragraphs \<open>ps\<close>, the document
  is produced; its first three blocks are the name, the contact and the email block,
  the next \<open>N\<close> blocks are the paragraphs of the summary in their order, each
  justified, with the spacing after 120 for the first \<open>N - 1\<close> of them and 240 for
  the last, and the block after them is the EXPERIENCE header.
\<close>

theorem summary_spacing:
  assumes "summary d = Some ps"
  shows "\<exists>bs. generateWordDocument d = Inr bs
           \<and> take 3 bs = [name_paragraph d, contact_paragraph d, email_paragraph d]
           \<and> (\<forall>i < length ps.
                 bs ! (3 + i) =
                   Paragraph (Some JUSTIFIED) None (if Suc i = length ps then 240 else 120) None
                     [TextRun (ps ! i) 22 False False])
           \<and> bs ! (3 + length ps) = header_paragraph ''EXPERIENCE''"
proof -
  have ps: "or_empty (summary d) = ps"
    using assms by (simp add: or_empty_def)
  have "take 3 (render_blocks d) = [name_paragraph d, contact_paragraph d, email_paragraph d]"
    by (simp add: render_blocks_def)
  moreover have "\<forall>i < length ps.
      render_blocks d ! (3 + i) =
        Paragraph (Some JUSTIFIED) None (if Suc i = length ps then 240 else 120) None
          [TextRun (ps ! i) 22 False False]"
    using nth_summary_blocks [of _ d]
    by (simp add: render_blocks_def nth_append length_summary_blocks ps summary_block_def)
  moreover have "render_blocks d ! (3 + length ps) = header_paragraph ''EXPERIENCE''"
    by (simp add: render_blocks_def nth_append length_summary_blocks ps)
  ultimately show ?thesis
    by (simp add: generateWordDocument_eq)
qed

text \<open>The theorem at the record \<open>two_jobs\<close>, whose summary has two paragraphs.\<close>

theorem summary_spacing_witness:
  "summary two_jobs = Some [''p1'', ''p2'']
   \<and> (\<exists>bs. generateWordDocument two_jobs = Inr bs
         \<and> bs ! 3 = Paragraph (Some JUSTIFIED) None 120 None [TextRun ''p1'' 22 False False]
         \<and> bs ! 4 = Paragraph (Some JUSTIFIED) None 240 None [TextRun ''p2'' 22 False False]
         \<and> bs ! 5 = header_paragraph ''EXPERIENCE'')"
proof -
  have s: "summary two_jobs = Some [''p1'', ''p2'']"
    by (simp add: two_jobs_def)
  from summary_spacing [OF s] obtain bs where
    g: "generateWordDocument two_jobs = Inr bs"
    and n: "\<forall>i < length [''p1'', ''p2''].
                 bs ! (3 + i) =
                   Paragraph (Some JUSTIFIED) None
                     (if Suc i = length [''p1'', ''p2''] then 240 else 120) None
                     [TextRun ([''p1'', ''p2''] ! i) 22 False False]"
    and h: "bs ! (3 + length [''p1'', ''p2'']) = header_paragraph ''EXPERIENCE''"
    by blast
  from n have "bs ! (3 + 0) = Paragraph (Some JUSTIFIED) None 120 None [TextRun ''p1'' 22 False False]"
    by (elim allE [of _ 0]) simp
  moreover from n have "bs ! (3 + 1) = Paragraph (Some JUSTIFIED) None 240 None [TextRun ''p2'' 22 False False]"
    by (elim allE [of _ 1]) simp
  ultimately show ?thesis
    using s g h by simp
qed

subsection \<open>Absent and empty collections (C3)\<close>

text \<open>
  Claim C3. For each field that holds a collection (the summary, the experience, the
  responsibilities of a job anywhere in the experience, the education, the
  certifications, the achievements and the other personal details), the record with
  the field absent and the record with the field set to the empty list give the same
  result, also when the personal details are absent altogether; and
  \<open>generateWordDocument\<close> returns a document for every record, so neither of the
  two fails.
\<close>

theorem absent_collection_as_empty:
  "generateWordDocument (d\<lparr>summary := None\<rparr>) = generateWordDocument (d\<lparr>summary := Some []\<rparr>)
   \<and> generateWordDocument (d\<lparr>experience := None\<rparr>) = generateWordDocument (d\<lparr>experience := Some []\<rparr>)
   \<and> generateWordDocument (d\<lparr>experience := Some (js1 @ job\<lparr>responsibilities := None\<rparr> # js2)\<rparr>)
       = generateWordDocument (d\<lparr>experience := Some (js1 @ job\<lparr>responsibilities := Some []\<rparr> # js2)\<rparr>)
   \<and> generateWordDocument (d\<lparr>education := None\<rparr>) = generateWordDocument (d\<lparr>education := Some []\<rparr>)
   \<and> generateWordDocument (d\<lparr>certifications := None\<rparr>)
       = generateWordDocument (d\<lparr>certifications := Some []\<rparr>)
   \<and> generateWordDocument (d\<lparr>achievements := None\<rparr>)
       = generateWordDocument (d\<lparr>achievements := Some []\<rparr>)
   \<and> generateWordDocument (d\<lparr>personal := Some (p\<lparr>other := None\<rparr>)\<rparr>)
       = generateWordDocument (d\<lparr>personal := Some (p\<lparr>other := Some []\<rparr>)\<rparr>)
   \<and> generateWordDocument (d\<lparr>personal := None\<rparr>)
       = generateWordDocument
           (d\<lparr>personal := Some \<lparr>nationality = None, languages = None, visaStatus = None,
                                    other = Some []\<rparr>\<rparr>)
   \<and> (\<exists>bs. generateWordDocument d = Inr bs)"
proof -
  have "job_blocks m (job\<lparr>responsibilities := None\<rparr>) k
        = job_blocks m (job\<lparr>responsibilities := Some []\<rparr>) k" for m k
    by (simp add: job_blocks_def or_empty_def)
  then have "render_blocks (d\<lparr>experience := Some (js1 @ job\<lparr>responsibilities := None\<rparr> # js2)\<rparr>)
       = render_blocks (d\<lparr>experience := Some (js1 @ job\<lparr>responsibilities := Some []\<rparr> # js2)\<rparr>)"
    by (simp add: section_defs enumerate_append_eq)
  then show ?thesis
    by (simp add: generateWordDocument_eq) (simp add: section_defs)
qed

subsection \<open>Placeholders and optional sections (C6)\<close>

text \<open>
  Claim C6. For the record with every field absent the document is exactly the ten
  blocks below, with the placeholder texts and neither a CERTIFICATIONS nor a KEY
  ACHIEVEMENTS header or bullet. For every record, the blocks after the education
  entries are these, up to the SKILLS header: when the list of certifications is
  present and not empty, the CERTIFICATIONS header and one bulleted block for each
  certification, in order, with the spacing after 180 for the last and 60 for the
  others, and nothing when the list is absent or empty; then the same for KEY
  ACHIEVEMENTS and the achievements. Each of the two headers is among the blocks of the
  document exactly when its list is present and not empty, and each section
  contributes no block at all exactly when its list is absent or empty.
\<close>

theorem placeholders_and_optional_sections:
  "generateWordDocument absent_record =
     Inr [Paragraph (Some CENTER) None 100 None [TextRun ''NAME'' 32 True False],
          Paragraph (Some CENTER) None 50 None [TextRun ''Location|Phone'' 22 False False],
          Paragraph (Some CENTER) None 200 None [TextRun ''email@example.com'' 22 False True],
          header_paragraph ''EXPERIENCE'',
          header_paragraph ''EDUCATON'',
          header_paragraph ''SKILLS'',
          Paragraph (Some JUSTIFIED) None 100 None
            [TextRun ''Technical skills: '' 22 True False,
             TextRun ''Skills to be added'' 22 False False],
          Paragraph (Some JUSTIFIED) None 180 None
            [TextRun ''Core competencies: '' 22 True False,
             TextRun ''Competencies to be added'' 22 False False],
          header_paragraph ''PERSONAL DETAILS'',
          Paragraph None None 60 bullet_list [TextRun ''Nationality: To be added'' 22 False False]]
   \<and> (\<exists>bs tail. generateWordDocument d = Inr bs
         \<and> (header_paragraph ''CERTIFICATIONS'' \<in> set bs
              \<longleftrightarrow> (\<exists>cs. certifications d = Some cs \<and> cs \<noteq> []))
         \<and> (header_paragraph ''KEY ACHIEVEMENTS'' \<in> set bs
              \<longleftrightarrow> (\<exists>as. achievements d = Some as \<and> as \<noteq> []))
         \<and> drop (5 + length (or_empty (summary d))
                  + (\<Sum>job\<leftarrow>or_empty (experience d).
                       2 + length (or_empty (responsibilities job)))
                  + 2 * length (or_empty (education d))) bs
             = (if or_empty (certifications d) = [] then []
                else header_paragraph ''CERTIFICATIONS'' #
                     map (\<lambda>(i, cert).
                            Paragraph None None
                              (if Suc i = length (or_empty (certifications d)) then 180 else 60)
                              bullet_list [TextRun cert 22 False False])
                       (enumerate 0 (or_empty (certifications d))))
               @ (if or_empty (achievements d) = [] then []
                  else header_paragraph ''KEY ACHIEVEMENTS'' #
                       map (\<lambda>(i, achievement).
                              Paragraph None None
                                (if Suc i = length (or_empty (achievements d)) then 180 else 60)
                                bullet_list [TextRun achievement 22 False False])
                         (enumerate 0 (or_empty (achievements d))))
               @ header_paragraph ''SKILLS'' # tail)
   \<and> (certification_paragraphs d = Inr [] \<longleftrightarrow> \<not> (\<exists>cs. certifications d = Some cs \<and> cs \<noteq> []))
   \<and> (achievement_paragraphs d = Inr [] \<longleftrightarrow> \<not> (\<exists>as. achievements d = Some as \<and> as \<noteq> []))"
proof -
  have a: "generateWordDocument absent_record = Inr [Paragraph (Some CENTER) None 100 None [TextRun ''NAME'' 32 True False],
          Paragraph (Some CENTER) None 50 None [TextRun ''Location|Phone'' 22 False False],
          Paragraph (Some CENTER) None 200 None [TextRun ''email@example.com'' 22 False True],
          header_paragraph ''EXPERIENCE'',
          header_paragraph ''EDUCATON'',
          header_paragraph ''SKILLS'',
          Paragraph (Some JUSTIFIED) None 100 None
            [TextRun ''Technical skills: '' 22 True False,
             TextRun ''Skills to be added'' 22 False False],
          Paragraph (Some JUSTIFIED) None 180 None
            [TextRun ''Core competencies: '' 22 True False,
             TextRun ''Competencies to be added'' 22 False False],
          header_paragraph ''PERSONAL DETAILS'',
          Paragraph None None 60 bullet_list [TextRun ''Nationality: To be added'' 22 False False]]"
    by (simp add: generateWordDocument_eq absent_record_def section_defs or_default_def)
  have hdr: "header_paragraph l \<in> set (render_blocks d) \<longleftrightarrow>
       l = ''EXPERIENCE'' \<or> l = ''EDUCATON'' \<or> l = ''SKILLS'' \<or> l = ''PERSONAL DETAILS''
       \<or> (l = ''CERTIFICATIONS'' \<and> or_empty (certifications d) \<noteq> [])
       \<or> (l = ''KEY ACHIEVEMENTS'' \<and> or_empty (achievements d) \<noteq> [])" for l
    by (auto simp add: render_blocks_def summary_blocks_def experience_blocks_def
        education_blocks_def bullet_blocks_def optional_blocks_def other_blocks_def
        skills_paragraphs_def nationality_paragraph_def name_paragraph_def
        contact_paragraph_def email_paragraph_def header_paragraph_def Paragraph_def
        TextRun_def summary_block_def job_blocks_def responsibility_block_def
        education_entry_blocks_def bullet_block_def bullet_list_def)
  have ne: "or_empty xs \<noteq> [] \<longleftrightarrow> (\<exists>ys. xs = Some ys \<and> ys \<noteq> [])" for xs :: "string list option"
    by (auto simp add: or_empty_def split: option.splits)
  have b: "header_paragraph ''CERTIFICATIONS'' \<in> set (render_blocks d)
              \<longleftrightarrow> (\<exists>cs. certifications d = Some cs \<and> cs \<noteq> [])"
    by (simp add: hdr ne)
  have c: "header_paragraph ''KEY ACHIEVEMENTS'' \<in> set (render_blocks d)
              \<longleftrightarrow> (\<exists>as. achievements d = Some as \<and> as \<noteq> [])"
    by (simp add: hdr ne)
  have e: "bullet_section l xs = Inr [] \<longleftrightarrow> \<not> (\<exists>ys. xs = Some ys \<and> ys \<noteq> [])" for l xs
    by (auto simp add: bullet_section_eq bullet_blocks_def or_empty_def split: option.splits)
  have s: "bullet_blocks l xs =
      (if xs = [] then []
       else header_paragraph l #
            map (\<lambda>(i, x). Paragraph None None (if Suc i = length xs then 180 else 60)
                             bullet_list [TextRun x 22 False False])
              (enumerate 0 xs))" for l xs
    by (simp add: bullet_blocks_def bullet_block_def)
  have f: "\<exists>tail. drop (5 + length (or_empty (summary d))
                  + (\<Sum>job\<leftarrow>or_empty (experience d).
                       2 + length (or_empty (responsibilities job)))
                  + 2 * length (or_empty (education d))) (render_blocks d)
             = (if or_empty (certifications d) = [] then []
                else header_paragraph ''CERTIFICATIONS'' #
                     map (\<lambda>(i, cert).
                            Paragraph None None
                              (if Suc i = length (or_empty (certifications d)) then 180 else 60)
                              bullet_list [TextRun cert 22 False False])
                       (enumerate 0 (or_empty (certifications d))))
               @ (if or_empty (achievements d) = [] then []
                  else header_paragraph ''KEY ACHIEVEMENTS'' #
                       map (\<lambda>(i, achievement).
                              Paragraph None None
                                (if Suc i = length (or_empty (achievements d)) then 180 else 60)
                                bullet_list [TextRun achievement 22 False False])
                         (enumerate 0 (or_empty (achievements d))))
               @ header_paragraph ''SKILLS'' # tail"
    unfolding drop_front_render_blocks s skills_paragraphs_def by simp
  from f obtain tail where f': "drop (5 + length (or_empty (summary d))
                  + (\<Sum>job\<leftarrow>or_empty (experience d).
                       2 + length (or_empty (responsibilities job)))
                  + 2 * length (or_empty (education d))) (render_blocks d)
             = (if or_empty (certifications d) = [] then []
                else header_paragraph ''CERTIFICATIONS'' #
                     map (\<lambda>(i, cert).
                            Paragraph None None
                              (if Suc i = length (or_empty (certifications d)) then 180 else 60)
                              bullet_list [TextRun cert 22 False False])
                       (enumerate 0 (or_empty (certifications d))))
               @ (if or_empty (achievements d) = [] then []
                  else header_paragraph ''KEY ACHIEVEMENTS'' #
                       map (\<lambda>(i, achievement).
                              Paragraph None None
                                (if Suc i = length (or_empty (achievements d)) then 180 else 60)
                                bullet_list [TextRun achievement 22 False False])
                         (enumerate 0 (or_empty (achievements d))))
               @ header_paragraph ''SKILLS'' # tail" ..
  have g: "certification_paragraphs d = Inr [] \<longleftrightarrow> \<not> (\<exists>cs. certifications d = Some cs \<and> cs \<noteq> [])"
    by (simp add: certification_paragraphs_def e)
  have h: "achievement_paragraphs d = Inr [] \<longleftrightarrow> \<not> (\<exists>as. achievements d = Some as \<and> as \<noteq> [])"
    by (simp add: achievement_paragraphs_def e)
  have mid: "\<exists>bs tail. generateWordDocument d = Inr bs
         \<and> (header_paragraph ''CERTIFICATIONS'' \<in> set bs
              \<longleftrightarrow> (\<exists>cs. certifications d = Some cs \<and> cs \<noteq> []))
         \<and> (header_paragraph ''KEY ACHIEVEMENTS'' \<in> set bs
              \<longleftrightarrow> (\<exists>as. achievements d = Some as \<and> as \<noteq> []))
         \<and> drop (5 + length (or_empty (summary d))
                  + (\<Sum>job\<leftarrow>or_empty (experience d).
                       2 + length (or_empty (responsibilities job)))
                  + 2 * length (or_empty (education d))) bs
             = (if or_empty (certifications d) = [] then []
                else header_paragraph ''CERTIFICATIONS'' #
                     map (\<lambda>(i, cert).
                            Paragraph None None
                              (if Suc i = length (or_empty (certifications d)) then 180 else 60)
                              bullet_list [TextRun cert 22 False False])
                       (enumerate 0 (or_empty (certifications d))))
               @ (if or_empty (achievements d) = [] then []
                  else header_paragraph ''KEY ACHIEVEMENTS'' #
                       map (\<lambda>(i, achievement).
                              Paragraph None None
                                (if Suc i = length (or_empty (achievements d)) then 180 else 60)
                                bullet_list [TextRun achievement 22 False False])
                         (enumerate 0 (or_empty (achievements d))))
               @ header_paragraph ''SKILLS'' # tail"
    using generateWordDocument_eq [of d] b c f' by (intro exI conjI)
  from a mid g h show ?thesis by (intro conjI)
qed

text \<open>
  The theorem at the record with three certifications: the header and three bullets,
  with the spacings 60, 60 and 180, stand before the SKILLS header, and there is no KEY
  ACHIEVEMENTS header.
\<close>

theorem placeholders_and_optional_sections_witness:
  "\<exists>bs tail. generateWordDocument three_certifications = Inr bs
      \<and> drop 5 bs =
          [header_paragraph ''CERTIFICATIONS'',
           Paragraph None None 60 bullet_list [TextRun ''c1'' 22 False False],
           Paragraph None None 60 bullet_list [TextRun ''c2'' 22 False False],
           Paragraph None None 180 bullet_list [TextRun ''c3'' 22 False False],
           header_paragraph ''SKILLS''] @ tail
      \<and> header_paragraph ''CERTIFICATIONS'' \<in> set bs
      \<and> header_paragraph ''KEY ACHIEVEMENTS'' \<notin> set bs"
proof -
  have c: "certifications three_certifications = Some [''c1'', ''c2'', ''c3'']"
    and r: "achievements three_certifications = None" "summary three_certifications = None"
      "experience three_certifications = None" "education three_certifications = None"
    by (simp_all add: three_certifications_def absent_record_def)
  from placeholders_and_optional_sections [of three_certifications, THEN conjunct2, THEN conjunct1]
  have "\<exists>bs tail. generateWordDocument three_certifications = Inr bs
      \<and> header_paragraph ''CERTIFICATIONS'' \<in> set bs
      \<and> header_paragraph ''KEY ACHIEVEMENTS'' \<notin> set bs
      \<and> drop 5 bs =
          [header_paragraph ''CERTIFICATIONS'',
           Paragraph None None 60 bullet_list [TextRun ''c1'' 22 False False],
           Paragraph None None 60 bullet_list [TextRun ''c2'' 22 False False],
           Paragraph None None 180 bullet_list [TextRun ''c3'' 22 False False],
           header_paragraph ''SKILLS''] @ tail"
    by (simp add: c r or_empty_def)
  then show ?thesis by blast
qed

subsection \<open>The scenario of the record of jane doe (C7)\<close>


subsection \<open>The spacing constants (C8)\<close>

text \<open>
  Claim C8 as stated, that the spacings after the blocks are drawn from two constants,
  fails: the ten blocks of the record with every field absent already use six
  different values.
\<close>

theorem spacing_two_constants_counterexample:
  "map_sum id (map (after \<circ> spacing)) (generateWordDocument absent_record)
     = Inr [100, 50, 200, 120, 120, 120, 100, 180, 120, 60]"
  by (simp add: generateWordDocument_eq absent_record_def section_defs header_paragraph_def
      Paragraph_def)

text \<open>
  Claim C8, amended. For every record the document is produced, and the spacing after
  each block is fixed by the role and the position of the block alone, as
  \<open>trailing_spacings\<close> lists them: 100, 50 and 200 for the name, the contact and the
  email block; 120 for a summary paragraph and 240 for the last one; 120 for every
  header; 60 and 80 for the two lines of a job; 60 for a responsibility and 120 for
  the last one of a job that another job follows; 60 and 120 for the two lines of an
  education entry and 180 for the second line of the last entry; 60 for a
  certification or an achievement and 180 for the last one of its list; 100 and 180
  for the two lines of skills; 60 for every bullet of the personal details. So every
  spacing is one of the eight constants 50, 60, 80, 100, 120, 180, 200 and 240, and
  the document of the record \<open>two_jobs\<close> uses all eight.
\<close>

theorem spacing_constants:
  "(\<exists>bs. generateWordDocument d = Inr bs
      \<and> map (after \<circ> spacing) bs
          = trailing_spacings
              (length (or_empty (summary d)))
              (map (\<lambda>job. length (or_empty (responsibilities job))) (or_empty (experience d)))
              (length (or_empty (education d)))
              (length (or_empty (certifications d)))
              (length (or_empty (achievements d)))
              (truthy (case personal d of None \<Rightarrow> None | Some p \<Rightarrow> languages p))
              (truthy (case personal d of None \<Rightarrow> None | Some p \<Rightarrow> visaStatus p))
              (length (or_empty (case personal d of None \<Rightarrow> None | Some p \<Rightarrow> other p)))
      \<and> (\<forall>b \<in> set bs. after (spacing b) \<in> {50, 60, 80, 100, 120, 180, 200, 240}))
   \<and> (\<exists>bs. generateWordDocument two_jobs = Inr bs
         \<and> (after \<circ> spacing) ` set bs = {50, 60, 80, 100, 120, 180, 200, 240})"
proof -
  let ?sp = "trailing_spacings
              (length (or_empty (summary d)))
              (map (\<lambda>job. length (or_empty (responsibilities job))) (or_empty (experience d)))
              (length (or_empty (education d)))
              (length (or_empty (certifications d)))
              (length (or_empty (achievements d)))
              (truthy (case personal d of None \<Rightarrow> None | Some p \<Rightarrow> languages p))
              (truthy (case personal d of None \<Rightarrow> None | Some p \<Rightarrow> visaStatus p))
              (length (or_empty (case personal d of None \<Rightarrow> None | Some p \<Rightarrow> other p)))"
  have sp: "map (after \<circ> spacing) (render_blocks d) = ?sp"
    using spacings_render_blocks [of d] by (simp add: personal_field_def)
  have "set (map (after \<circ> spacing) (render_blocks d)) \<subseteq> {50, 60, 80, 100, 120, 180, 200, 240}"
    unfolding sp by (rule trailing_spacings_range)
  then have range: "\<forall>b \<in> set (render_blocks d).
      after (spacing b) \<in> {50, 60, 80, 100, 120, 180, 200, 240}"
    by auto
  have "map (after \<circ> spacing) (render_blocks two_jobs)
        = [100, 50, 200, 120, 240, 120, 60, 80, 60, 120, 60, 80, 60, 60, 120, 120, 100, 180,
           120, 60]"
    unfolding spacings_render_blocks
    by (simp add: two_jobs_def or_empty_def personal_field_def truthy_def trailing_spacings_def
        job_spacings_def bullet_spacings_def upt_rec)
  then have "set (map (after \<circ> spacing) (render_blocks two_jobs))
        = {50, 60, 80, 100, 120, 180, 200, 240}"
    by (simp only: list.set) auto
  then have all: "(after \<circ> spacing) ` set (render_blocks two_jobs)
        = {50, 60, 80, 100, 120, 180, 200, 240}"
    by simp
  from sp range all show ?thesis
    by (simp add: generateWordDocument_eq)
qed

text \<open>The theorem at the record \<open>two_jobs\<close>: the spacings of its twenty blocks.\<close>

theorem spacing_constants_witness:
  "\<exists>bs. generateWordDocument two_jobs = Inr bs
      \<and> map (after \<circ> spacing) bs
          = [100, 50, 200, 120, 240, 120, 60, 80, 60, 120, 60, 80, 60, 60, 120, 120, 100, 180,
             120, 60]
      \<and> name_paragraph two_jobs \<in> set bs
      \<and> after (spacing (name_paragraph two_jobs)) \<in> {50, 60, 80, 100, 120, 180, 200, 240}"
proof -
  from spacing_constants [of two_jobs, THEN conjunct1] obtain bs where
    g: "generateWordDocument two_jobs = Inr bs"
    and m: "map (after \<circ> spacing) bs
          = trailing_spacings
              (length (or_empty (summary two_jobs)))
              (map (\<lambda>job. length (or_empty (responsibilities job)))
                 (or_empty (experience two_jobs)))
              (length (or_empty (education two_jobs)))
              (length (or_empty (certifications two_jobs)))
              (length (or_empty (achievements two_jobs)))
              (truthy (case personal two_jobs of None \<Rightarrow> None | Some p \<Rightarrow> languages p))
              (truthy (case personal two_jobs of None \<Rightarrow> None | Some p \<Rightarrow> visaStatus p))
              (length (or_empty (case personal two_jobs of None \<Rightarrow> None | Some p \<Rightarrow> other p)))"
    and a: "\<forall>b \<in> set bs. after (spacing b) \<in> {50, 60, 80, 100, 120, 180, 200, 240}"
    by blast
  from m have l: "map (after \<circ> spacing) bs
          = [100, 50, 200, 120, 240, 120, 60, 80, 60, 120, 60, 80, 60, 60, 120, 120, 100, 180,
             120, 60]"
    by (simp add: two_jobs_def or_empty_def truthy_def trailing_spacings_def
        job_spacings_def bullet_spacings_def upt_rec)
  from g have n: "name_paragraph two_jobs \<in> set bs"
    by (auto simp add: generateWordDocument_eq render_blocks_def)
  with a have "after (spacing (name_paragraph two_jobs)) \<in> {50, 60, 80, 100, 120, 180, 200, 240}"
    by blast
  with g l n show ?thesis by (intro exI conjI)
qed

subsection \<open>Empty strings in the personal details (C10)\<close>

text \<open>
  Claim C10. A record whose personal details hold the empty string as languages gives
  the same result as the record where the languages are absent, and the line of the
  languages contributes no block; the same holds of the visa status.
\<close>

theorem empty_string_as_absent:
  "generateWordDocument (d\<lparr>personal := Some (p\<lparr>languages := Some ''''\<rparr>)\<rparr>)
     = generateWordDocument (d\<lparr>personal := Some (p\<lparr>languages := None\<rparr>)\<rparr>)
   \<and> optional_line ''Languages: '' languages (d\<lparr>personal := Some (p\<lparr>languages := Some ''''\<rparr>)\<rparr>)
       = Inr []
   \<and> generateWordDocument (d\<lparr>personal := Some (p\<lparr>visaStatus := Some ''''\<rparr>)\<rparr>)
       = generateWordDocument (d\<lparr>personal := Some (p\<lparr>visaStatus := None\<rparr>)\<rparr>)
   \<and> optional_line ''Visa Status: '' visaStatus (d\<lparr>personal := Some (p\<lparr>visaStatus := Some ''''\<rparr>)\<rparr>)
       = Inr []"
  by (simp add: generateWordDocument_eq optional_line_eq) (simp add: section_defs)

subsection \<open>Parsing the answer of the remote service (C4)\<close>

text \<open>
  Claim C4 as stated, that the first top-level brace-delimited span is parsed, fails on
  a text with two objects. The text below is not JSON; its first top-level span is an object
  that parses; the pattern matches from the first opening brace to the last closing
  brace, which is not JSON, and the call fails with the SyntaxError of the second
  \<^verbatim>\<open>JSON.parse\<close>.
\<close>

theorem first_span_counterexample:
  \<open>json_parse ''A: {"a":1} B: {"b":2}'' = None
   \<and> spec_first_top_level_span ''A: {"a":1} B: {"b":2}'' = Some ''{"a":1}''
   \<and> json_parse ''{"a":1}'' = Some (JObject [(''a'', JNumber 1)])
   \<and> jsonMatch ''A: {"a":1} B: {"b":2}'' = Some ''{"a":1} B: {"b":2}''
   \<and> json_parse ''{"a":1} B: {"b":2}'' = None
   \<and> callChatGPTAPI json_parse (chat_response ''A: {"a":1} B: {"b":2}'') = Inl SyntaxError\<close>
proof -
  let ?t = \<open>''A: {"a":1} B: {"b":2}''\<close>
  let ?m = \<open>''{"a":1} B: {"b":2}''\<close>
  have p1: "json_parse ?t = None" by code_simp
  have p2: \<open>spec_first_top_level_span ?t = Some ''{"a":1}''\<close>
    by (simp add: spec_first_top_level_span_def)
  have p3: \<open>json_parse ''{"a":1}'' = Some (JObject [(''a'', JNumber 1)])\<close> by code_simp
  have p4: "jsonMatch ?t = Some ?m" by (simp add: jsonMatch_def)
  have p5: "json_parse ?m = None" by code_simp
  have p6: "callChatGPTAPI json_parse (chat_response ?t) = Inl SyntaxError"
    by (simp add: callChatGPTAPI_def chat_response_def message_content_def
        parse_response_text_def p1 p4 p5)
  from p1 p2 p3 p4 p5 p6 show ?thesis by (intro conjI)
qed

text \<open>
  Claim C4, amended. Let the answer be successful with the message content \<open>t\<close>. If
  \<open>t\<close> parses, the call returns that parse. Otherwise, if the pattern does not
  match, the call fails with the Error \<^verbatim>\<open>Failed to parse ChatGPT response as JSON\<close>;
  if it matches \<open>m\<close> and \<open>m\<close> parses, the call returns the parse of \<open>m\<close>; if
  \<open>m\<close> does not parse, the call fails. The match runs from the first opening brace
  of the text to its last closing brace, and there is none when the text has no
  opening brace or no closing brace after the first opening one. So a text that does
  not parse and holds one span of valid JSON between two stretches of prose without
  braces gives the parse of that span.
\<close>

theorem response_text_parsing:
  assumes "ok r" and "json r = Some data" and "message_content data = Inr (Some t)"
  shows "(parse t = Some v \<longrightarrow> callChatGPTAPI parse r = Inr v)
    \<and> (parse t = None \<and> jsonMatch t = None \<longrightarrow>
         callChatGPTAPI parse r = Inl (Error ''Failed to parse ChatGPT response as JSON''))
    \<and> (parse t = None \<and> jsonMatch t = Some m \<and> parse m = Some v \<longrightarrow>
         callChatGPTAPI parse r = Inr v)
    \<and> (parse t = None \<and> jsonMatch t = Some m \<and> parse m = None \<longrightarrow>
         (\<exists>e. callChatGPTAPI parse r = Inl e))
    \<and> (CHR ''{'' \<notin> set pre \<and> CHR ''}'' \<notin> set post \<longrightarrow>
         jsonMatch (pre @ CHR ''{'' # mid @ CHR ''}'' # post) = Some (CHR ''{'' # mid @ [CHR ''}'']))
    \<and> (CHR ''{'' \<notin> set t \<or> CHR ''}'' \<notin> set (dropWhile (\<lambda>c. c \<noteq> CHR ''{'') t) \<longrightarrow>
         jsonMatch t = None)
    \<and> (t = pre @ CHR ''{'' # mid @ CHR ''}'' # post \<and> CHR ''{'' \<notin> set pre \<and> CHR ''}'' \<notin> set post
        \<and> parse t = None \<and> parse (CHR ''{'' # mid @ [CHR ''}'']) = Some v \<longrightarrow>
         callChatGPTAPI parse r = Inr v)"
proof -
  have eq: "callChatGPTAPI parse r = parse_response_text parse (Some t)"
    using assms by (rule callChatGPTAPI_ok)
  have c1: "parse t = Some v \<longrightarrow> parse_response_text parse (Some t) = Inr v"
    by (simp add: parse_response_text_def)
  have c2: "parse t = None \<and> jsonMatch t = None \<longrightarrow>
         parse_response_text parse (Some t) = Inl (Error ''Failed to parse ChatGPT response as JSON'')"
    by (simp add: parse_response_text_def)
  have c3: "parse t = None \<and> jsonMatch t = Some m \<and> parse m = Some v \<longrightarrow>
         parse_response_text parse (Some t) = Inr v"
    by (simp add: parse_response_text_def)
  have c4: "parse t = None \<and> jsonMatch t = Some m \<and> parse m = None \<longrightarrow>
         (\<exists>e. parse_response_text parse (Some t) = Inl e)"
    by (simp add: parse_response_text_def)
  have c5: "CHR ''{'' \<notin> set pre \<and> CHR ''}'' \<notin> set post \<longrightarrow>
         jsonMatch (pre @ CHR ''{'' # mid @ CHR ''}'' # post) = Some (CHR ''{'' # mid @ [CHR ''}''])"
    using jsonMatch_span [of pre post mid] by blast
  have c6: "CHR ''{'' \<notin> set t \<or> CHR ''}'' \<notin> set (dropWhile (\<lambda>c. c \<noteq> CHR ''{'') t) \<longrightarrow>
         jsonMatch t = None"
    using jsonMatch_none [of t] by blast
  have c7: "t = pre @ CHR ''{'' # mid @ CHR ''}'' # post \<and> CHR ''{'' \<notin> set pre \<and> CHR ''}'' \<notin> set post
        \<and> parse t = None \<and> parse (CHR ''{'' # mid @ [CHR ''}'']) = Some v \<longrightarrow>
         parse_response_text parse (Some t) = Inr v"
    using jsonMatch_span [of pre post mid] by (auto simp add: parse_response_text_def)
  show ?thesis
    unfolding eq using c1 c2 c3 c4 c5 c6 c7 by (intro conjI)
qed

text \<open>The theorem at an answer that wraps one object in prose, with \<open>json_parse\<close>.\<close>

theorem response_text_parsing_witness:
  \<open>ok (chat_response ''Here you go: {"name":"X"} Thanks.'')
   \<and> json_parse ''Here you go: {"name":"X"} Thanks.'' = None
   \<and> jsonMatch ''Here you go: {"name":"X"} Thanks.'' = Some ''{"name":"X"}''
   \<and> json_parse ''{"name":"X"}'' = Some (JObject [(''name'', JString ''X'')])
   \<and> callChatGPTAPI json_parse (chat_response ''Here you go: {"name":"X"} Thanks.'')
       = Inr (JObject [(''name'', JString ''X'')])\<close>
proof -
  let ?t = \<open>''Here you go: {"name":"X"} Thanks.''\<close>
  let ?m = \<open>''{"name":"X"}''\<close>
  let ?v = "JObject [(''name'', JString ''X'')]"
  have h1: "ok (chat_response ?t)"
    by (simp add: chat_response_def)
  have h2: "json (chat_response ?t)
      = Some \<lparr>error = None, choices = Some [\<lparr>choice_message = Some \<lparr>content = Some ?t\<rparr>\<rparr>]\<rparr>"
    by (simp add: chat_response_def)
  have h3: "message_content
       \<lparr>error = None, choices = Some [\<lparr>choice_message = Some \<lparr>content = Some ?t\<rparr>\<rparr>]\<rparr>
      = Inr (Some ?t)"
    by (simp add: message_content_def)
  have p1: "json_parse ?t = None" by code_simp
  have p2: "jsonMatch ?t = Some ?m" by (simp add: jsonMatch_def)
  have p3: "json_parse ?m = Some ?v" by code_simp
  note third = response_text_parsing [OF h1 h2 h3, of json_parse ?v ?m,
      THEN conjunct2, THEN conjunct2, THEN conjunct1]
  have "callChatGPTAPI json_parse (chat_response ?t) = Inr ?v"
    by (rule mp [OF third]) (intro conjI p1 p2 p3)
  with h1 p1 p2 p3 show ?thesis by (intro conjI)
qed

subsection \<open>Failed answers of the remote service (C5)\<close>

text \<open>
  Claim C5 as stated, that the error carries both the status and the message, fails:
  two failed
  answers with the same message and the status codes 401 and 429 give the same error,
  whose only content is the message.
\<close>

theorem status_not_carried_counterexample:
  "callChatGPTAPI json_parse (error_response 401 (Some ''Incorrect API key provided''))
     = Inl (Error ''ChatGPT API error: Incorrect API key provided'')
   \<and> callChatGPTAPI json_parse (error_response 429 (Some ''Incorrect API key provided''))
     = Inl (Error ''ChatGPT API error: Incorrect API key provided'')"
  by (simp add: callChatGPTAPI_def error_response_def or_default_def)

text \<open>
  Claim C5, amended. On an answer that is not successful the call fails and returns no
  record. When the body is a JSON object, the failure is the Error whose message is
  \<^verbatim>\<open>ChatGPT API error: \<close> followed by the message of the body's error object when
  that is present and not empty, and followed by \<^verbatim>\<open>HTTP \<close> and the status code
  otherwise.
\<close>

theorem remote_error:
  assumes "\<not> ok r"
  shows "(\<exists>e. callChatGPTAPI parse r = Inl e)
    \<and> (json r = Some errorData \<and> error errorData = Some detail \<and> message detail = Some m
        \<and> m \<noteq> [] \<longrightarrow>
         callChatGPTAPI parse r = Inl (Error (''ChatGPT API error: '' @ m)))
    \<and> (json r = Some errorData
        \<and> \<not> truthy (case error errorData of None \<Rightarrow> None | Some detail \<Rightarrow> message detail) \<longrightarrow>
         callChatGPTAPI parse r
           = Inl (Error (''ChatGPT API error: HTTP '' @ string_of_nat (status r))))"
proof -
  have fails: "\<exists>e. callChatGPTAPI parse r = Inl e"
    using assms by (cases "json r") (simp_all add: callChatGPTAPI_def)
  have msg: "json r = Some errorData \<and> error errorData = Some detail \<and> message detail = Some m
        \<and> m \<noteq> [] \<longrightarrow>
         callChatGPTAPI parse r = Inl (Error (''ChatGPT API error: '' @ m))"
    using assms by (simp add: callChatGPTAPI_def or_default_def)
  have "\<not> truthy x \<Longrightarrow> or_default x dflt = dflt" for x dflt
    by (cases x) (simp_all add: truthy_def or_default_def)
  then have code: "json r = Some errorData
        \<and> \<not> truthy (case error errorData of None \<Rightarrow> None | Some detail \<Rightarrow> message detail) \<longrightarrow>
         callChatGPTAPI parse r
           = Inl (Error (''ChatGPT API error: HTTP '' @ string_of_nat (status r)))"
    using assms by (simp add: callChatGPTAPI_def)
  from fails msg code show ?thesis by (intro conjI)
qed

text \<open>The theorem at two answers with the status 401, with and without a message.\<close>

theorem remote_error_witness:
  "\<not> ok (error_response 401 (Some ''Incorrect API key provided''))
   \<and> callChatGPTAPI json_parse (error_response 401 (Some ''Incorrect API key provided''))
       = Inl (Error ''ChatGPT API error: Incorrect API key provided'')
   \<and> \<not> ok (error_response 401 None)
   \<and> callChatGPTAPI json_parse (error_response 401 None)
       = Inl (Error ''ChatGPT API error: HTTP 401'')"
proof -
  have h: "\<not> ok (error_response 401 msg)" for msg
    by (simp add: error_response_def)
  have s: "string_of_nat 401 = ''401''" by code_simp
  from remote_error [OF h, of json_parse "Some ''Incorrect API key provided''"
      "\<lparr>error = Some \<lparr>message = Some ''Incorrect API key provided''\<rparr>, choices = None\<rparr>"
      "\<lparr>message = Some ''Incorrect API key provided''\<rparr>" "''Incorrect API key provided''"]
  have a: "callChatGPTAPI json_parse (error_response 401 (Some ''Incorrect API key provided''))
       = Inl (Error ''ChatGPT API error: Incorrect API key provided'')"
    by (simp add: error_response_def)
  from remote_error [OF h, of json_parse None
      "\<lparr>error = Some \<lparr>message = None\<rparr>, choices = None\<rparr>"]
  have b: "callChatGPTAPI json_parse (error_response 401 None)
       = Inl (Error ''ChatGPT API error: HTTP 401'')"
    by (simp add: error_response_def truthy_def s)
  from h a b show ?thesis by (intro conjI)
qed

end
